theory Spec2Isabelle
  imports Main "HOL-Library.Sublist"
begin

section \<open>Python values and exceptions\<close>

text \<open>
  The values that flow through \<^verbatim>\<open>lambda_function.py\<close>: \<^verbatim>\<open>None\<close>, booleans, integers,
  strings and dictionaries with string keys.
\<close>

datatype py_value =
    PyNone
  | PyBool bool
  | PyInt int
  | PyStr string
  | PyDict "(string \<times> py_value) list"

text \<open>Python truthiness, as used by \<^verbatim>\<open>not client_id\<close>.\<close>

fun truthy :: "py_value \<Rightarrow> bool" where
  "truthy PyNone = False"
| "truthy (PyBool b) = b"
| "truthy (PyInt i) = (i \<noteq> 0)"
| "truthy (PyStr s) = (s \<noteq> [])"
| "truthy (PyDict kvs) = (kvs \<noteq> [])"

text \<open>
  An exception object: \<open>mro\<close> lists the names of its class and of the classes it derives
  from, most specific first; \<open>str\<close> is \<^verbatim>\<open>str(e)\<close>; \<open>status_code\<close> and \<open>message\<close> are the
  attributes that \<^verbatim>\<open>lambda_handler\<close> reads from a \<^verbatim>\<open>LambdaError\<close>.
\<close>

datatype exn = Exn (mro: "string list") (status_code: int) (message: string) (str: string)

definition isinstance :: "exn \<Rightarrow> string \<Rightarrow> bool" where
  "isinstance e c = (c \<in> set (mro e))"

definition type_name :: "exn \<Rightarrow> string" where
  "type_name e = (case mro e of [] \<Rightarrow> [] | c # _ \<Rightarrow> c)"

text \<open>\<^verbatim>\<open>LambdaError(status, msg)\<close> and the errors the store and the interpreter raise.\<close>

definition LambdaError :: "int \<Rightarrow> string \<Rightarrow> exn" where
  "LambdaError st msg = Exn [''LambdaError'', ''Exception'', ''BaseException''] st msg msg"

definition ClientError :: "string \<Rightarrow> exn" where
  "ClientError code = Exn [''ClientError'', ''Exception'', ''BaseException''] 0 [] code"

definition AttributeError :: "string \<Rightarrow> exn" where
  "AttributeError msg = Exn [''AttributeError'', ''Exception'', ''BaseException''] 0 [] msg"

section \<open>The world: two DynamoDB tables, the clock, the logger\<close>

datatype attr_value = N int | S string

type_synonym item = "string \<rightharpoonup> attr_value"

type_synonym ddb_table = "string \<rightharpoonup> item"

datatype store_call = UpdateItem string | PutItem | GetItem string

datatype level = INFO | ERROR

text \<open>
  \<open>rl_table\<close> is \<^verbatim>\<open>dynamodb.Table("RL_AI")\<close> and \<open>user_table\<close> is \<^verbatim>\<open>dynamodb.Table("Users")\<close>,
  each indexed by the value of its partition key. \<open>clock\<close> is \<^verbatim>\<open>int(time.time())\<close>.
  \<open>faults\<close> is what the environment will answer to the coming store calls: \<open>Some e\<close> makes
  the next call raise \<open>e\<close> and leave the tables as they are, \<open>None\<close> (or an exhausted list)
  lets the call go through. \<open>calls\<close> records the store calls issued, \<open>log\<close> the logger's
  output.
\<close>

record world =
  rl_table :: ddb_table
  user_table :: ddb_table
  clock :: int
  faults :: "exn option list"
  calls :: "store_call list"
  log :: "(level \<times> string) list"

definition logger_info :: "string \<Rightarrow> world \<Rightarrow> world" where
  "logger_info m w = w\<lparr>log := log w @ [(INFO, m)]\<rparr>"

definition logger_error :: "string \<Rightarrow> world \<Rightarrow> world" where
  "logger_error m w = w\<lparr>log := log w @ [(ERROR, m)]\<rparr>"

definition next_fault :: "world \<Rightarrow> exn option" where
  "next_fault w = (case faults w of [] \<Rightarrow> None | f # fs \<Rightarrow> f)"

definition begin_call :: "store_call \<Rightarrow> world \<Rightarrow> exn option \<times> world" where
  "begin_call c w = (next_fault w, w\<lparr>faults := drop 1 (faults w), calls := calls w @ [c]\<rparr>)"

subsection \<open>Update expressions\<close>

text \<open>
  The fragment of DynamoDB's update expressions that the source uses:
  \<^verbatim>\<open>SET path = operand + operand\<close>, where an operand is an attribute, a placeholder of
  \<^verbatim>\<open>ExpressionAttributeValues\<close> or \<^verbatim>\<open>if_not_exists(path, operand)\<close>.
\<close>

datatype operand = Attr string | Val string | IfNotExists string operand

datatype update_expr = SetAdd string operand operand

fun eval_operand :: "item \<Rightarrow> (string \<rightharpoonup> attr_value) \<Rightarrow> operand \<Rightarrow> exn + attr_value" where
  "eval_operand it vals (Attr a) =
     (case it a of None \<Rightarrow> Inl (ClientError ''ValidationException'') | Some v \<Rightarrow> Inr v)"
| "eval_operand it vals (Val p) =
     (case vals p of None \<Rightarrow> Inl (ClientError ''ValidationException'') | Some v \<Rightarrow> Inr v)"
| "eval_operand it vals (IfNotExists a d) =
     (case it a of None \<Rightarrow> eval_operand it vals d | Some v \<Rightarrow> Inr v)"

fun add_values :: "attr_value \<Rightarrow> attr_value \<Rightarrow> exn + attr_value" where
  "add_values (N a) (N b) = Inr (N (a + b))"
| "add_values _ _ = Inl (ClientError ''ValidationException'')"

fun apply_update :: "item \<Rightarrow> (string \<rightharpoonup> attr_value) \<Rightarrow> update_expr \<Rightarrow> exn + item" where
  "apply_update it vals (SetAdd path a b) =
     (case eval_operand it vals a of
        Inl e \<Rightarrow> Inl e
      | Inr x \<Rightarrow>
          (case eval_operand it vals b of
             Inl e \<Rightarrow> Inl e
           | Inr y \<Rightarrow>
               (case add_values x y of
                  Inl e \<Rightarrow> Inl e
                | Inr v \<Rightarrow> Inr (it(path \<mapsto> v)))))"

subsection \<open>Table operations\<close>

text \<open>
  \<^verbatim>\<open>table.update_item(Key=..., UpdateExpression=..., ExpressionAttributeValues=...)\<close>
  with no condition expression: UpdateItem edits the item stored under the key, and adds a
  new item holding only the key attribute when there is none, before it applies the
  expression. That is why the source's expression guards \<^verbatim>\<open>invocations\<close> with
  \<^verbatim>\<open>if_not_exists\<close>.
\<close>

definition update_item ::
  "string \<times> string \<Rightarrow> update_expr \<Rightarrow> (string \<rightharpoonup> attr_value) \<Rightarrow> world \<Rightarrow> (exn + unit) \<times> world" where
  "update_item key expr vals w =
     (case begin_call (UpdateItem (snd key)) w of
        (Some e, w1) \<Rightarrow> (Inl e, w1)
      | (None, w1) \<Rightarrow>
          (let it = (case rl_table w1 (snd key) of
                       None \<Rightarrow> [fst key \<mapsto> S (snd key)]
                     | Some it \<Rightarrow> it)
           in case apply_update it vals expr of
                Inl e \<Rightarrow> (Inl e, w1)
              | Inr it' \<Rightarrow> (Inr (), w1\<lparr>rl_table := (rl_table w1)(snd key \<mapsto> it')\<rparr>)))"

text \<open>
  \<^verbatim>\<open>table.put_item(Item=...)\<close> with no condition expression: the item replaces whatever
  is stored under its key.
\<close>

definition put_item :: "item \<Rightarrow> world \<Rightarrow> (exn + unit) \<times> world" where
  "put_item it w =
     (case begin_call PutItem w of
        (Some e, w1) \<Rightarrow> (Inl e, w1)
      | (None, w1) \<Rightarrow>
          (case it ''associated_account'' of
             Some (S k) \<Rightarrow> (Inr (), w1\<lparr>rl_table := (rl_table w1)(k \<mapsto> it)\<rparr>)
           | _ \<Rightarrow> (Inl (ClientError ''ValidationException''), w1)))"

text \<open>
  \<^verbatim>\<open>user_table.get_item(Key={'id': client_id})\<close>: the response carries \<^verbatim>\<open>Item\<close> only when
  the key is present.
\<close>

definition get_item :: "string \<Rightarrow> world \<Rightarrow> (exn + item option) \<times> world" where
  "get_item k w =
     (case begin_call (GetItem k) w of
        (Some e, w1) \<Rightarrow> (Inl e, w1)
      | (None, w1) \<Rightarrow> (Inr (user_table w1 k), w1))"

section \<open>try / except\<close>

text \<open>
  The handlers of a \<^verbatim>\<open>try\<close> statement are tried in order; the first whose class the
  exception is an instance of runs, and an exception its body raises leaves the statement.
\<close>

fun selected_handler :: "exn \<Rightarrow> string list \<Rightarrow> nat option" where
  "selected_handler e [] = None"
| "selected_handler e (c # cs) =
     (if isinstance e c then Some 0 else map_option Suc (selected_handler e cs))"

definition try_except ::
  "(exn + 'a) \<times> world \<Rightarrow> (string \<times> (exn \<Rightarrow> world \<Rightarrow> (exn + 'a) \<times> world)) list
     \<Rightarrow> (exn + 'a) \<times> world" where
  "try_except r handlers =
     (case r of
        (Inr v, w) \<Rightarrow> (Inr v, w)
      | (Inl e, w) \<Rightarrow>
          (case selected_handler e (map fst handlers) of
             None \<Rightarrow> (Inl e, w)
           | Some i \<Rightarrow> snd (handlers ! i) e w))"

section \<open>get_rate_limit_info\<close>

definition get_rate_limit_info :: "string \<Rightarrow> world \<Rightarrow> (exn + item) \<times> world" where
  "get_rate_limit_info client_id w =
     try_except
       (case get_item client_id w of
          (Inl e, w1) \<Rightarrow> (Inl e, w1)
        | (Inr response, w1) \<Rightarrow>
            (Inr (case response of None \<Rightarrow> Map.empty | Some it \<Rightarrow> it), w1))
       [(''ClientError'',
         \<lambda>e w1. (Inl e, logger_error (''Error retrieving rate limit info: '' @ str e) w1))]"

section \<open>update_rate_limit_info\<close>

text \<open>The item that the creation path writes.\<close>

definition new_record :: "string \<Rightarrow> int \<Rightarrow> item" where
  "new_record client_id ttl_timestamp =
     [''associated_account'' \<mapsto> S client_id, ''invocations'' \<mapsto> N 1, ''ttl'' \<mapsto> N ttl_timestamp]"

text \<open>The two handlers of the inner \<^verbatim>\<open>try\<close> around \<^verbatim>\<open>table.update_item\<close>, in source order.\<close>

definition update_handlers ::
  "string \<Rightarrow> int \<Rightarrow> (string \<times> (exn \<Rightarrow> world \<Rightarrow> (exn + unit) \<times> world)) list" where
  "update_handlers client_id ttl_timestamp =
     [(''Exception'',
       \<lambda>e w.
         try_except
           (put_item (new_record client_id ttl_timestamp)
              (logger_info (''Creating new rate limit record for '' @ client_id) w))
           [(''Exception'',
             \<lambda>e w. (Inl e, logger_error (''Error creating rate limit record: '' @ str e) w))]),
      (''Exception'',
       \<lambda>e w. (Inl e, logger_error (''Error updating rate limit record: '' @ str e) w))]"

text \<open>
  The arguments of the \<^verbatim>\<open>update_item\<close> call:
  \<^verbatim>\<open>'SET invocations = if_not_exists(invocations, :zero) + :inc'\<close> with
  \<^verbatim>\<open>{':inc': 1, ':zero': 1}\<close>.
\<close>

definition UpdateExpression :: update_expr where
  "UpdateExpression =
     SetAdd ''invocations'' (IfNotExists ''invocations'' (Val '':zero'')) (Val '':inc'')"

definition ExpressionAttributeValues :: "string \<rightharpoonup> attr_value" where
  "ExpressionAttributeValues = ['':inc'' \<mapsto> N 1, '':zero'' \<mapsto> N 1]"

text \<open>
  \<open>TTL_S\<close> is the module constant \<^verbatim>\<open>int(os.environ.get('TTL_S', '60'))\<close>. The function has
  no \<^verbatim>\<open>return\<close> statement, so a normal end yields \<^verbatim>\<open>None\<close>.
\<close>

definition update_rate_limit_info :: "int \<Rightarrow> string \<Rightarrow> world \<Rightarrow> (exn + py_value) \<times> world" where
  "update_rate_limit_info TTL_S client_id w =
     try_except
       (let ttl_timestamp = clock w + TTL_S
        in case try_except
                  (update_item (''associated_account'', client_id)
                     UpdateExpression ExpressionAttributeValues w)
                  (update_handlers client_id ttl_timestamp) of
             (Inl e, w1) \<Rightarrow> (Inl e, w1)
           | (Inr u, w1) \<Rightarrow> (Inr PyNone, w1))
       [(''Exception'',
         \<lambda>e w1. (Inl e, logger_error (''Error updating rate limit info: '' @ str e) w1))]"

section \<open>lambda_handler\<close>

text \<open>\<^verbatim>\<open>parsed_event.get(key)\<close>: a dictionary answers \<^verbatim>\<open>None\<close> for a missing key.\<close>

definition dict_get :: "(string \<times> py_value) list \<Rightarrow> string \<Rightarrow> py_value" where
  "dict_get kvs k = (case map_of kvs k of None \<Rightarrow> PyNone | Some v \<Rightarrow> v)"

fun py_get :: "py_value \<Rightarrow> string \<Rightarrow> exn + py_value" where
  "py_get (PyDict kvs) k = Inr (dict_get kvs k)"
| "py_get _ k = Inl (AttributeError ''get'')"

text \<open>
  \<^verbatim>\<open>parse_event\<close>, \<^verbatim>\<open>process_rate_limit_request\<close> (applied to \<^verbatim>\<open>AUTH_BP\<close>) and
  \<^verbatim>\<open>create_response\<close> are imported from modules outside this file; they are parameters.
  \<open>lambda_body\<close> is the body of the handler's \<^verbatim>\<open>try\<close> statement.
\<close>

definition lambda_body ::
  "('ev \<Rightarrow> world \<Rightarrow> (exn + py_value) \<times> world)
     \<Rightarrow> (py_value \<Rightarrow> py_value \<Rightarrow> world \<Rightarrow> (exn + py_value) \<times> world)
     \<Rightarrow> (int \<Rightarrow> py_value \<Rightarrow> 'resp)
     \<Rightarrow> 'ev \<Rightarrow> world \<Rightarrow> (exn + 'resp) \<times> world" where
  "lambda_body parse_event process_rate_limit_request create_response event w =
     (case parse_event event w of
        (Inl e, w1) \<Rightarrow> (Inl e, w1)
      | (Inr parsed_event, w1) \<Rightarrow>
          (case py_get parsed_event ''client_id'' of
             Inl e \<Rightarrow> (Inl e, w1)
           | Inr client_id \<Rightarrow>
               (case py_get parsed_event ''session'' of
                  Inl e \<Rightarrow> (Inl e, w1)
                | Inr session_id \<Rightarrow>
                    if \<not> truthy client_id \<or> \<not> truthy session_id
                    then (Inl (LambdaError 400
                            ''Missing required fields: client_id and session are required.''), w1)
                    else
                      (case process_rate_limit_request client_id session_id w1 of
                         (Inl e, w2) \<Rightarrow> (Inl e, w2)
                       | (Inr result, w2) \<Rightarrow> (Inr (create_response 200 result), w2)))))"

definition lambda_handler ::
  "('ev \<Rightarrow> world \<Rightarrow> (exn + py_value) \<times> world)
     \<Rightarrow> (py_value \<Rightarrow> py_value \<Rightarrow> world \<Rightarrow> (exn + py_value) \<times> world)
     \<Rightarrow> (int \<Rightarrow> py_value \<Rightarrow> 'resp)
     \<Rightarrow> 'ev \<Rightarrow> world \<Rightarrow> (exn + 'resp) \<times> world" where
  "lambda_handler parse_event process_rate_limit_request create_response event w =
     try_except
       (lambda_body parse_event process_rate_limit_request create_response event w)
       [(''LambdaError'',
         \<lambda>e w1. (Inr (create_response (status_code e)
                        (PyDict [(''message'', PyStr (message e)),
                                 (''error'', PyStr (type_name e))])), w1)),
        (''Exception'',
         \<lambda>e w1. (Inr (create_response 500
                        (PyDict [(''message'', PyStr ''An internal server error occurred.'')])),
                  logger_error (''An unexpected error occurred: '' @ str e) w1))]"

section \<open>Observations and concrete worlds\<close>

text \<open>The \<^verbatim>\<open>invocations\<close> and \<^verbatim>\<open>ttl\<close> attributes stored for a key, if any.\<close>

definition stored_count :: "world \<Rightarrow> string \<Rightarrow> attr_value option" where
  "stored_count w k = (case rl_table w k of None \<Rightarrow> None | Some it \<Rightarrow> it ''invocations'')"

definition stored_ttl :: "world \<Rightarrow> string \<Rightarrow> attr_value option" where
  "stored_ttl w k = (case rl_table w k of None \<Rightarrow> None | Some it \<Rightarrow> it ''ttl'')"

text \<open>An empty store at time 1000 that answers every call.\<close>

definition w_empty :: world where
  "w_empty = \<lparr>rl_table = Map.empty, user_table = Map.empty, clock = 1000,
              faults = [], calls = [], log = []\<rparr>"

text \<open>
  A store that holds a record for \<open>A\<close> with five invocations, created at time 990 with a
  window of 60 seconds, and that throttles the next call.
\<close>

definition w_throttled :: world where
  "w_throttled = \<lparr>rl_table = [''A'' \<mapsto> (new_record ''A'' 1050)(''invocations'' \<mapsto> N 5)],
                  user_table = Map.empty, clock = 1000,
                  faults = [Some (ClientError ''ProvisionedThroughputExceededException'')],
                  calls = [], log = []\<rparr>"

text \<open>An empty store whose next two calls both fail.\<close>

definition w_down :: world where
  "w_down = \<lparr>rl_table = Map.empty, user_table = Map.empty, clock = 1000,
             faults = [Some (ClientError ''ResourceNotFoundException''),
                       Some (ClientError ''ConditionalCheckFailedException'')],
             calls = [], log = []\<rparr>"

text \<open>
  A store in which another caller has already created the record for \<open>A\<close> (the item that
  its first \<^verbatim>\<open>update_item\<close> adds, with count 2) and that throttles the next call.
\<close>

definition w_raced :: world where
  "w_raced = \<lparr>rl_table = [''A'' \<mapsto> [''associated_account'' \<mapsto> S ''A'', ''invocations'' \<mapsto> N 2]],
              user_table = Map.empty, clock = 1000,
              faults = [Some (ClientError ''ProvisionedThroughputExceededException'')],
              calls = [], log = []\<rparr>"

text \<open>The same store when the call after the throttled one fails as well.\<close>

definition w_raced_down :: world where
  "w_raced_down = w_raced\<lparr>faults := [Some (ClientError ''ProvisionedThroughputExceededException''),
                                       Some (ClientError ''InternalServerError'')]\<rparr>"

text \<open>An empty store that throttles the next call and fails the one after it.\<close>

definition w_outage :: world where
  "w_outage = \<lparr>rl_table = Map.empty, user_table = Map.empty, clock = 1000,
               faults = [Some (ClientError ''ProvisionedThroughputExceededException''),
                         Some (ClientError ''InternalServerError'')],
               calls = [], log = []\<rparr>"

text \<open>
  Stand-ins for the imported functions: a parser that returns the event as it is, a
  rate-limit routine that counts the request under the client id with a window of 60
  seconds, and a response made of the status and the body.
\<close>

definition echo_parse :: "py_value \<Rightarrow> world \<Rightarrow> (exn + py_value) \<times> world" where
  "echo_parse event w = (Inr event, w)"

definition counting_process :: "py_value \<Rightarrow> py_value \<Rightarrow> world \<Rightarrow> (exn + py_value) \<times> world" where
  "counting_process client_id session_id w =
     (case client_id of
        PyStr k \<Rightarrow> update_rate_limit_info 60 k w
      | _ \<Rightarrow> (Inl (AttributeError ''client_id''), w))"

definition pair_response :: "int \<Rightarrow> py_value \<Rightarrow> int \<times> py_value" where
  "pair_response status body = (status, body)"

section \<open>Auxiliary facts\<close>

lemma apply_update_increment:
  "apply_update it ExpressionAttributeValues UpdateExpression =
     (case it ''invocations'' of
        None \<Rightarrow> Inr (it(''invocations'' \<mapsto> N 2))
      | Some (N n) \<Rightarrow> Inr (it(''invocations'' \<mapsto> N (n + 1)))
      | Some (S s) \<Rightarrow> Inl (ClientError ''ValidationException''))"
  by (simp add: UpdateExpression_def ExpressionAttributeValues_def
           split: option.splits attr_value.splits)

lemmas update_defs =
  update_rate_limit_info_def update_handlers_def try_except_def update_item_def put_item_def
  begin_call_def logger_info_def logger_error_def new_record_def

lemmas world_defs = w_empty_def w_throttled_def w_down_def next_fault_def isinstance_def
  ClientError_def stored_count_def stored_ttl_def

lemmas race_defs = w_raced_def w_raced_down_def w_outage_def

lemmas handler_defs = lambda_handler_def lambda_body_def try_except_def LambdaError_def
  isinstance_def type_name_def

text \<open>
  What the code does by design on the two paths: a successful \<^verbatim>\<open>update_item\<close> on a stored
  record adds one to its count and leaves its \<^verbatim>\<open>ttl\<close> alone; when \<^verbatim>\<open>update_item\<close>
  raises and \<^verbatim>\<open>put_item\<close> goes through, the record written has count 1 and expires
  \<open>TTL_S\<close> seconds after the current time.
\<close>

lemma increment_keeps_ttl:
  "next_fault w = None \<Longrightarrow> rl_table w k = Some it \<Longrightarrow> it ''invocations'' = Some (N n) \<Longrightarrow>
   fst (update_rate_limit_info TTL_S k w) = Inr PyNone \<and>
   stored_count (snd (update_rate_limit_info TTL_S k w)) k = Some (N (n + 1)) \<and>
   stored_ttl (snd (update_rate_limit_info TTL_S k w)) k = it ''ttl''"
  by (simp add: update_defs apply_update_increment stored_count_def stored_ttl_def)

lemma creation_path_record:
  "next_fault w = Some e \<Longrightarrow> isinstance e ''Exception'' \<Longrightarrow>
   next_fault (w\<lparr>faults := drop 1 (faults w)\<rparr>) = None \<Longrightarrow>
   fst (update_rate_limit_info TTL_S k w) = Inr PyNone \<and>
   rl_table (snd (update_rate_limit_info TTL_S k w)) k = Some (new_record k (clock w + TTL_S))"
  by (simp add: update_defs next_fault_def)

section \<open>The first request of a client\<close>

text \<open>
  Claim C1. The first increment-or-create for a key with no record should leave the stored
  invocation count at 1. On the empty store the update call goes through, creates the item
  and stores \<^verbatim>\<open>if_not_exists(invocations, :zero) + :inc\<close> with both placeholders bound
  to 1: the count stored after the first call is 2.
\<close>

theorem first_increment_stores_two:
  "rl_table w_empty ''A'' = None \<and>
   fst (update_rate_limit_info 60 ''A'' w_empty) = Inr PyNone \<and>
   stored_count (snd (update_rate_limit_info 60 ''A'' w_empty)) ''A'' = Some (N 2)"
  by (simp add: update_defs world_defs apply_update_increment)

text \<open>
  Claim C2. With no record for the key, the record created should have count 1 and
  \<^verbatim>\<open>ttl\<close> equal to now plus the window. On the empty store only \<^verbatim>\<open>update_item\<close> is
  called, and the record it creates holds the key and a count of 2, and no \<^verbatim>\<open>ttl\<close>.
\<close>

theorem absent_key_created_without_ttl:
  "calls (snd (update_rate_limit_info 60 ''A'' w_empty)) = [UpdateItem ''A''] \<and>
   rl_table (snd (update_rate_limit_info 60 ''A'' w_empty)) ''A'' =
     Some [''associated_account'' \<mapsto> S ''A'', ''invocations'' \<mapsto> N 2] \<and>
   stored_ttl (snd (update_rate_limit_info 60 ''A'' w_empty)) ''A'' = None"
  by (simp add: update_defs world_defs apply_update_increment)

section \<open>The expiry attribute\<close>

text \<open>
  Claim C3. Every record should carry a \<^verbatim>\<open>ttl\<close> written once, at creation, and never
  changed by a later increment. Two runs break it: on the empty store the record is
  created with no \<^verbatim>\<open>ttl\<close>; and when the update of a stored record (\<^verbatim>\<open>ttl\<close> 1050) is
  throttled, the creation path overwrites the record and its \<^verbatim>\<open>ttl\<close> becomes 1060.
\<close>

theorem ttl_invariant_broken:
  "rl_table (snd (update_rate_limit_info 60 ''A'' w_empty)) ''A'' \<noteq> None \<and>
   stored_ttl (snd (update_rate_limit_info 60 ''A'' w_empty)) ''A'' = None \<and>
   stored_ttl w_throttled ''A'' = Some (N 1050) \<and>
   stored_ttl (snd (update_rate_limit_info 60 ''A'' w_throttled)) ''A'' = Some (N 1060)"
  by (simp add: update_defs world_defs apply_update_increment)

section \<open>The value returned\<close>

text \<open>
  Claim C4, as stated: on success the operation returns the new invocation count. On the
  empty store the call succeeds and the count stored is 2, but the value returned is
  \<^verbatim>\<open>None\<close>, not 2.
\<close>

theorem returns_new_count_counterexample:
  "fst (update_rate_limit_info 60 ''A'' w_empty) \<noteq> Inr (PyInt 2) \<and>
   stored_count (snd (update_rate_limit_info 60 ''A'' w_empty)) ''A'' = Some (N 2)"
  by (simp add: update_defs world_defs apply_update_increment)

text \<open>
  Claim C4, amended: whenever \<^verbatim>\<open>update_rate_limit_info\<close> ends without raising, the value
  it returns is \<^verbatim>\<open>None\<close>, and the new count is in the table under the client's key: the
  count stored before plus one when \<^verbatim>\<open>update_item\<close> went through (2 when no count was
  stored), and 1 when the record was written by the creation path.
\<close>

theorem update_rate_limit_info_returns_None:
  "\<not> isl (fst (update_rate_limit_info TTL_S client_id w)) \<Longrightarrow>
   fst (update_rate_limit_info TTL_S client_id w) = Inr PyNone \<and>
   stored_count (snd (update_rate_limit_info TTL_S client_id w)) client_id =
     Some (N (case next_fault w of
                None \<Rightarrow>
                  (case stored_count w client_id of
                     None \<Rightarrow> 2
                   | Some (N n) \<Rightarrow> n + 1
                   | Some (S s) \<Rightarrow> 1)
              | Some e \<Rightarrow> 1))"
  by (auto simp: update_defs apply_update_increment Let_def stored_count_def
           split: option.splits attr_value.splits sum.splits if_splits)

theorem update_rate_limit_info_returns_None_witness:
  "\<not> isl (fst (update_rate_limit_info 60 ''A'' w_raced)) \<and>
   fst (update_rate_limit_info 60 ''A'' w_raced) = Inr PyNone \<and>
   stored_count (snd (update_rate_limit_info 60 ''A'' w_raced)) ''A'' = Some (N 1) \<and>
   \<not> isl (fst (update_rate_limit_info 60 ''A'' (w_raced\<lparr>faults := []\<rparr>))) \<and>
   fst (update_rate_limit_info 60 ''A'' (w_raced\<lparr>faults := []\<rparr>)) = Inr PyNone \<and>
   stored_count w_raced ''A'' = Some (N 2) \<and>
   stored_count (snd (update_rate_limit_info 60 ''A'' (w_raced\<lparr>faults := []\<rparr>))) ''A'' =
     Some (N 3)"
proof -
  have ok1: "\<not> isl (fst (update_rate_limit_info 60 ''A'' w_raced))"
    by (simp add: update_defs world_defs race_defs)
  have ok2: "\<not> isl (fst (update_rate_limit_info 60 ''A'' (w_raced\<lparr>faults := []\<rparr>)))"
    by (simp add: update_defs world_defs race_defs apply_update_increment)
  have st: "stored_count w_raced ''A'' = Some (N 2) \<and>
            stored_count (w_raced\<lparr>faults := []\<rparr>) ''A'' = Some (N 2) \<and>
            next_fault (w_raced\<lparr>faults := []\<rparr>) = None \<and>
            next_fault w_raced = Some (ClientError ''ProvisionedThroughputExceededException'')"
    by (simp add: world_defs race_defs)
  from update_rate_limit_info_returns_None [OF ok1]
       update_rate_limit_info_returns_None [OF ok2] ok1 ok2 st
  show ?thesis by simp
qed

section \<open>The creation fallback\<close>

text \<open>
  Claim C5. Only a missing record should trigger the creation attempt, and any other
  failure of the update call should reach the caller as an error. Here a record for
  \<open>A\<close> with five invocations is stored and the update call is throttled: the function
  calls \<^verbatim>\<open>put_item\<close>, resets the count to 1 and returns normally, logging only that it
  creates a new record.
\<close>

theorem throttled_update_recreates_record:
  "stored_count w_throttled ''A'' = Some (N 5) \<and>
   fst (update_rate_limit_info 60 ''A'' w_throttled) = Inr PyNone \<and>
   calls (snd (update_rate_limit_info 60 ''A'' w_throttled)) = [UpdateItem ''A'', PutItem] \<and>
   stored_count (snd (update_rate_limit_info 60 ''A'' w_throttled)) ''A'' = Some (N 1) \<and>
   log (snd (update_rate_limit_info 60 ''A'' w_throttled)) =
     [(INFO, ''Creating new rate limit record for A'')]"
  by (simp add: update_defs world_defs)




text \<open>
  Claim C10. The second handler around the update call, the one that logs
  \<^verbatim>\<open>Error updating rate limit record\<close> and raises again, is never reached: an exception
  that is an \<^verbatim>\<open>Exception\<close> is taken by the first handler, any other passes both, and no
  run of the function logs that handler's message.
\<close>

theorem second_update_handler_unreachable:
  "selected_handler e (map fst (update_handlers client_id ttl_timestamp)) =
     (if isinstance e ''Exception'' then Some 0 else None) \<and>
   selected_handler e (map fst (update_handlers client_id ttl_timestamp)) \<noteq> Some 1 \<and>
   list_all (\<lambda>entry. \<not> prefix ''Error updating rate limit record'' (snd entry))
     (drop (length (log w)) (log (snd (update_rate_limit_info TTL_S client_id w))))"
proof (intro conjI)
  show "selected_handler e (map fst (update_handlers client_id ttl_timestamp)) =
          (if isinstance e ''Exception'' then Some 0 else None)"
    by (simp add: update_handlers_def)
  show "selected_handler e (map fst (update_handlers client_id ttl_timestamp)) \<noteq> Some 1"
    by (simp add: update_handlers_def)
  show "list_all (\<lambda>entry. \<not> prefix ''Error updating rate limit record'' (snd entry))
          (drop (length (log w)) (log (snd (update_rate_limit_info TTL_S client_id w))))"
    by (auto simp: update_defs apply_update_increment Let_def
             split: option.splits attr_value.splits sum.splits)
qed

theorem second_update_handler_unreachable_witness:
  "selected_handler (ClientError ''ResourceNotFoundException'')
     (map fst (update_handlers ''A'' 1060)) = Some 0 \<and>
   log (snd (update_rate_limit_info 60 ''A'' w_down)) =
     [(INFO, ''Creating new rate limit record for A''),
      (ERROR, ''Error creating rate limit record: ConditionalCheckFailedException''),
      (ERROR, ''Error updating rate limit info: ConditionalCheckFailedException'')] \<and>
   list_all (\<lambda>entry. \<not> prefix ''Error updating rate limit record'' (snd entry))
     (drop (length (log w_down)) (log (snd (update_rate_limit_info 60 ''A'' w_down))))"
proof -
  have l: "log (snd (update_rate_limit_info 60 ''A'' w_down)) =
     [(INFO, ''Creating new rate limit record for A''),
      (ERROR, ''Error creating rate limit record: ConditionalCheckFailedException''),
      (ERROR, ''Error updating rate limit info: ConditionalCheckFailedException'')]"
    by (simp add: update_defs world_defs)
  have i: "isinstance (ClientError ''ResourceNotFoundException'') ''Exception''"
    by (simp add: world_defs)
  from second_update_handler_unreachable
         [of "ClientError ''ResourceNotFoundException''" "''A''" 1060 w_down 60] l i
  show ?thesis by simp
qed

section \<open>Account lookup\<close>

text \<open>
  Claim C8. A lookup for a client with no account record returns the empty dictionary, an
  ordinary result; a fault of the account store is raised to the caller.
\<close>

theorem get_rate_limit_info_outcomes:
  "(next_fault w = None \<and> user_table w client_id = None \<longrightarrow>
      fst (get_rate_limit_info client_id w) = Inr Map.empty) \<and>
   (next_fault w = Some e \<longrightarrow> fst (get_rate_limit_info client_id w) = Inl e)"
  by (simp add: get_rate_limit_info_def get_item_def begin_call_def try_except_def)

theorem get_rate_limit_info_outcomes_witness:
  "next_fault w_empty = None \<and> user_table w_empty ''A'' = None \<and>
   fst (get_rate_limit_info ''A'' w_empty) = Inr Map.empty \<and>
   next_fault w_down = Some (ClientError ''ResourceNotFoundException'') \<and>
   fst (get_rate_limit_info ''A'' w_down) = Inl (ClientError ''ResourceNotFoundException'')"
proof -
  have a: "next_fault w_empty = None \<and> user_table w_empty ''A'' = None"
    by (simp add: world_defs)
  have b: "next_fault w_down = Some (ClientError ''ResourceNotFoundException'')"
    by (simp add: world_defs)
  from get_rate_limit_info_outcomes [of w_empty "''A''"] a
       get_rate_limit_info_outcomes [of w_down "''A''" "ClientError ''ResourceNotFoundException''"] b
  show ?thesis by simp
qed

section \<open>The handler\<close>

text \<open>
  Claim C7. When the parsed event has an empty or absent \<^verbatim>\<open>client_id\<close> or \<^verbatim>\<open>session\<close>, the
  handler answers with status 400 and the world is the one the parser left: the rate-limit
  routine is not called and no table is written.
\<close>

theorem missing_fields_invalid_request:
  assumes "parse_event event w = (Inr (PyDict kvs), w1)"
      and "\<not> truthy (dict_get kvs ''client_id'') \<or> \<not> truthy (dict_get kvs ''session'')"
  shows "lambda_handler parse_event process_rate_limit_request create_response event w =
           (Inr (create_response 400
                   (PyDict [(''message'',
                             PyStr ''Missing required fields: client_id and session are required.''),
                            (''error'', PyStr ''LambdaError'')])), w1)"
  using assms by (auto simp: handler_defs)

theorem missing_fields_invalid_request_witness:
  "\<not> truthy (dict_get [(''client_id'', PyStr ''A'')] ''session'') \<and>
   lambda_handler echo_parse counting_process pair_response
     (PyDict [(''client_id'', PyStr ''A'')]) w_empty =
     (Inr (400, PyDict [(''message'',
                         PyStr ''Missing required fields: client_id and session are required.''),
                        (''error'', PyStr ''LambdaError'')]), w_empty)"
proof -
  have p: "echo_parse (PyDict [(''client_id'', PyStr ''A'')]) w_empty =
             (Inr (PyDict [(''client_id'', PyStr ''A'')]), w_empty)"
    by (simp add: echo_parse_def)
  have m: "\<not> truthy (dict_get [(''client_id'', PyStr ''A'')] ''client_id'') \<or>
           \<not> truthy (dict_get [(''client_id'', PyStr ''A'')] ''session'')"
    by (simp add: dict_get_def)
  from missing_fields_invalid_request [of echo_parse "PyDict [(''client_id'', PyStr ''A'')]"
         w_empty "[(''client_id'', PyStr ''A'')]" w_empty counting_process pair_response] p m
  show ?thesis by (simp add: dict_get_def pair_response_def)
qed

text \<open>
  Claim C9. A request with a missing field is answered with status 400 and a message that
  names the missing fields; when the body of the handler raises an \<^verbatim>\<open>Exception\<close> that is
  not a \<^verbatim>\<open>LambdaError\<close>, the answer has status 500 and the same fixed message whatever
  the exception is, and the exception goes to the log only.
\<close>

theorem handler_error_responses:
  "(parse_event event w = (Inr (PyDict kvs), w1) \<and>
    (\<not> truthy (dict_get kvs ''client_id'') \<or> \<not> truthy (dict_get kvs ''session'')) \<longrightarrow>
      fst (lambda_handler parse_event process_rate_limit_request create_response event w) =
        Inr (create_response 400
               (PyDict [(''message'',
                         PyStr ''Missing required fields: client_id and session are required.''),
                        (''error'', PyStr ''LambdaError'')]))) \<and>
   (lambda_body parse_event process_rate_limit_request create_response event w = (Inl e, w2) \<and>
    isinstance e ''Exception'' \<and> \<not> isinstance e ''LambdaError'' \<longrightarrow>
      lambda_handler parse_event process_rate_limit_request create_response event w =
        (Inr (create_response 500
                (PyDict [(''message'', PyStr ''An internal server error occurred.'')])),
         logger_error (''An unexpected error occurred: '' @ str e) w2))"
proof (intro conjI impI)
  assume "parse_event event w = (Inr (PyDict kvs), w1) \<and>
          (\<not> truthy (dict_get kvs ''client_id'') \<or> \<not> truthy (dict_get kvs ''session''))"
  then show "fst (lambda_handler parse_event process_rate_limit_request create_response event w) =
        Inr (create_response 400
               (PyDict [(''message'',
                         PyStr ''Missing required fields: client_id and session are required.''),
                        (''error'', PyStr ''LambdaError'')]))"
    by (auto simp: handler_defs)
next
  assume "lambda_body parse_event process_rate_limit_request create_response event w = (Inl e, w2) \<and>
          isinstance e ''Exception'' \<and> \<not> isinstance e ''LambdaError''"
  then show "lambda_handler parse_event process_rate_limit_request create_response event w =
        (Inr (create_response 500
                (PyDict [(''message'', PyStr ''An internal server error occurred.'')])),
         logger_error (''An unexpected error occurred: '' @ str e) w2)"
    by (simp add: lambda_handler_def try_except_def)
qed

theorem handler_error_responses_witness:
  "fst (lambda_handler echo_parse counting_process pair_response
          (PyDict [(''client_id'', PyStr ''A''), (''session'', PyStr [])]) w_empty) =
     Inr (400, PyDict [(''message'',
                        PyStr ''Missing required fields: client_id and session are required.''),
                       (''error'', PyStr ''LambdaError'')]) \<and>
   fst (lambda_body echo_parse counting_process pair_response
          (PyDict [(''client_id'', PyStr ''A''), (''session'', PyStr ''t'')]) w_down) =
     Inl (ClientError ''ConditionalCheckFailedException'') \<and>
   fst (lambda_handler echo_parse counting_process pair_response
          (PyDict [(''client_id'', PyStr ''A''), (''session'', PyStr ''t'')]) w_down) =
     Inr (500, PyDict [(''message'', PyStr ''An internal server error occurred.'')])"
proof -
  let ?bad = "PyDict [(''client_id'', PyStr ''A''), (''session'', PyStr [])]"
  let ?good = "PyDict [(''client_id'', PyStr ''A''), (''session'', PyStr ''t'')]"
  have a: "echo_parse ?bad w_empty =
             (Inr (PyDict [(''client_id'', PyStr ''A''), (''session'', PyStr [])]), w_empty) \<and>
           (\<not> truthy (dict_get [(''client_id'', PyStr ''A''), (''session'', PyStr [])] ''client_id'') \<or>
            \<not> truthy (dict_get [(''client_id'', PyStr ''A''), (''session'', PyStr [])] ''session''))"
    by (simp add: echo_parse_def dict_get_def)
  have r: "fst (lambda_body echo_parse counting_process pair_response ?good w_down) =
             Inl (ClientError ''ConditionalCheckFailedException'')"
    by (simp add: lambda_body_def echo_parse_def dict_get_def counting_process_def
          update_defs world_defs)
  then have b: "lambda_body echo_parse counting_process pair_response ?good w_down =
             (Inl (ClientError ''ConditionalCheckFailedException''),
              snd (lambda_body echo_parse counting_process pair_response ?good w_down)) \<and>
           isinstance (ClientError ''ConditionalCheckFailedException'') ''Exception'' \<and>
           \<not> isinstance (ClientError ''ConditionalCheckFailedException'') ''LambdaError''"
    by (simp add: prod_eq_iff world_defs)
  from handler_error_responses [of echo_parse ?bad w_empty
         "[(''client_id'', PyStr ''A''), (''session'', PyStr [])]" w_empty
         counting_process pair_response] a
  have one: "fst (lambda_handler echo_parse counting_process pair_response ?bad w_empty) =
     Inr (400, PyDict [(''message'',
                        PyStr ''Missing required fields: client_id and session are required.''),
                       (''error'', PyStr ''LambdaError'')])"
    by (simp add: pair_response_def)
  from handler_error_responses [of echo_parse ?good w_down _ _ counting_process pair_response
         "ClientError ''ConditionalCheckFailedException''"
         "snd (lambda_body echo_parse counting_process pair_response ?good w_down)"] b
  have two: "fst (lambda_handler echo_parse counting_process pair_response ?good w_down) =
     Inr (500, PyDict [(''message'', PyStr ''An internal server error occurred.'')])"
    by (simp add: pair_response_def)
  from one r two show ?thesis by simp
qed

end
